theory Spec2Isabelle
  imports Main "HOL-Library.AList"
begin

section \<open>Values of the embedding\<close>

text \<open>
  An event name is a string or a symbol (\<open>string | symbol\<close>). A listener is a function
  value; two references to one function are the same listener, so a listener is modelled by
  its identity, a natural number. What a listener does when it is called is given by a
  table of listener bodies (\<open>prog\<close> below).
\<close>

datatype ename = Str string | Sym nat

type_synonym listener = nat

text \<open>The error classes of the module: \<open>TooManyListeners\<close> and \<open>UnhandledError\<close> extend
  \<open>Error\<close>; \<open>Error msg\<close> is any other instance of \<open>Error\<close>.\<close>

datatype error = TooManyListeners | UnhandledError | Error string

text \<open>\<open>interface EventListenerOptions { once?: boolean }\<close> and
  \<open>interface EventListenerMeta { options?: EventListenerOptions }\<close>.\<close>

datatype EventListenerOptions = Options (once: "bool option")

datatype EventListenerMeta = Meta (options: "EventListenerOptions option")

text \<open>The values that are passed to listeners and thrown.\<close>

datatype val =
    VUndefined
  | VKey ename
  | VNum int
  | VFn listener
  | VOptions EventListenerOptions
  | VError error

definition options_val :: "EventListenerOptions option \<Rightarrow> val" where
  "options_val opts = (case opts of None \<Rightarrow> VUndefined | Some x \<Rightarrow> VOptions x)"

text \<open>\<open>x instanceof Error\<close>.\<close>

fun instanceof_Error :: "val \<Rightarrow> bool" where
  "instanceof_Error (VError x) = True"
| "instanceof_Error v = False"

text \<open>\<open>!eventName\<close> for an optional \<open>string | symbol\<close>: true for a missing argument and for
  the empty string; a symbol and a non-empty string are truthy.\<close>

definition falsy :: "ename option \<Rightarrow> bool" where
  "falsy eventName = (eventName = None \<or> eventName = Some (Str ''''))"

section \<open>Sets and maps of the runtime\<close>

text \<open>
  A \<open>Set\<close> object is its list of entries in insertion order. \<open>delete\<close> empties the entry
  (\<open>None\<close>) and \<open>add\<close> appends, which is how a running \<open>for ... of\<close> over the set sees
  them: the iterator keeps an index into the entries, skips the empty ones and reads the
  length again at every step.
\<close>

type_synonym entries = "listener option list"

definition set_has :: "entries \<Rightarrow> listener \<Rightarrow> bool" where
  "set_has es l = (Some l \<in> set es)"

definition set_values :: "entries \<Rightarrow> listener list" where
  "set_values es = concat (map (\<lambda>x. case x of None \<Rightarrow> [] | Some l \<Rightarrow> [l]) es)"

definition set_size :: "entries \<Rightarrow> nat" where
  "set_size es = length (set_values es)"

definition set_add :: "entries \<Rightarrow> listener \<Rightarrow> entries" where
  "set_add es l = (if set_has es l then es else es @ [Some l])"

definition set_delete :: "entries \<Rightarrow> listener \<Rightarrow> entries" where
  "set_delete es l = map (\<lambda>x. if x = Some l then None else x) es"

text \<open>
  A \<open>Map\<close> is an association list in insertion order with distinct keys: \<open>map_of\<close> is
  \<open>get\<close>, \<open>AList.update\<close> is \<open>set\<close> (in place for a present key, at the end for a new
  one) and \<open>AList.delete\<close> is \<open>delete\<close>.
\<close>

section \<open>The emitter's state\<close>

text \<open>
  \<open>p_maxListeners\<close>, \<open>p_listeners\<close> and \<open>p_listenerMeta\<close> are the private fields
  \<open>_maxListeners\<close>, \<open>_listeners\<close> and \<open>_listenerMeta\<close>. \<open>_listeners\<close> maps an event
  name to a reference to a \<open>Set\<close> object; the objects live in \<open>sets\<close>, indexed by their
  address, because \<open>emit\<close> and \<open>removeEventListener\<close> keep such a reference across calls
  of listeners. The inner maps of \<open>_listenerMeta\<close> are looked up afresh at every use, so
  they are kept by value. \<open>calls\<close> logs every call of a listener with its arguments.
  \<open>_maxListeners\<close> is a number; the model takes the integers.
\<close>

record state =
  p_maxListeners :: int
  p_listeners :: "(ename \<times> nat) list"
  p_listenerMeta :: "(ename \<times> (listener \<times> EventListenerMeta) list) list"
  sets :: "entries list"
  calls :: "(listener \<times> val list) list"

definition DEFAULT_MAX_LISTENERS :: int where
  "DEFAULT_MAX_LISTENERS = 10"

definition new_EventEmitter :: state where
  "new_EventEmitter =
     \<lparr>p_maxListeners = DEFAULT_MAX_LISTENERS, p_listeners = [], p_listenerMeta = [],
      sets = [], calls = []\<rparr>"

text \<open>A call returns a value or throws one; both leave a state behind.\<close>

datatype 'a outcome = Ret 'a state | Exc val state

section \<open>Listener bodies\<close>

text \<open>
  A listener body is a sequence of calls back into the emitter and of \<open>throw\<close>s, chosen from
  the arguments of the call; it stops at the first exception, which leaves the listener.
\<close>

datatype cmd =
    Register ename listener "EventListenerOptions option"
  | Unregister ename listener
  | UnregisterAll "ename option"
  | Emit ename "val list"
  | SetMax int
  | Throw val

type_synonym prog = "listener \<Rightarrow> val list \<Rightarrow> cmd list"

section \<open>The methods of \<open>EventEmitter\<close>\<close>

definition set_maxListeners :: "int \<Rightarrow> state \<Rightarrow> unit outcome" where
  "set_maxListeners n s =
     (if n < 0 then Exc (VError (Error ''Tried to set negative value for maxListeners.'')) s
      else Ret () (s\<lparr>p_maxListeners := n\<rparr>))"

text \<open>\<open>this._listenerMeta.get(eventName)?.get(listener)\<close> followed by
  \<open>listenerMeta?.options?.once\<close>.\<close>

definition once_option :: "state \<Rightarrow> ename \<Rightarrow> listener \<Rightarrow> bool" where
  "once_option s eventName l =
     (case map_of (p_listenerMeta s) eventName of
        None \<Rightarrow> False
      | Some metaMap \<Rightarrow>
          (case map_of metaMap l of
             None \<Rightarrow> False
           | Some m \<Rightarrow> (case options m of None \<Rightarrow> False | Some opts \<Rightarrow> once opts = Some True)))"

text \<open>\<open>this._listenerMeta.get(eventName)?.delete(listener)\<close>.\<close>

definition meta_delete ::
  "ename \<Rightarrow> listener \<Rightarrow> (ename \<times> (listener \<times> EventListenerMeta) list) list
    \<Rightarrow> (ename \<times> (listener \<times> EventListenerMeta) list) list" where
  "meta_delete eventName l mm =
     (case map_of mm eventName of
        None \<Rightarrow> mm
      | Some metaMap \<Rightarrow> AList.update eventName (AList.delete l metaMap) mm)"

text \<open>The second half of \<open>addEventListener\<close>: the meta of a new listener is stored unless one
  is there already.\<close>

definition meta_add ::
  "ename \<Rightarrow> listener \<Rightarrow> EventListenerOptions option
    \<Rightarrow> (ename \<times> (listener \<times> EventListenerMeta) list) list
    \<Rightarrow> (ename \<times> (listener \<times> EventListenerMeta) list) list" where
  "meta_add eventName l opts mm =
     (case map_of mm eventName of
        Some metaMap \<Rightarrow>
          (case map_of metaMap l of
             Some m \<Rightarrow> mm
           | None \<Rightarrow> AList.update eventName (AList.update l (Meta opts) metaMap) mm)
      | None \<Rightarrow> AList.update eventName [(l, Meta opts)] mm)"

text \<open>The first lines of \<open>addEventListener\<close>: the listener set of the event, created and
  stored when the event has none.\<close>

definition get_or_create_set :: "ename \<Rightarrow> state \<Rightarrow> nat \<times> state" where
  "get_or_create_set eventName s =
     (case map_of (p_listeners s) eventName of
        Some a \<Rightarrow> (a, s)
      | None \<Rightarrow>
          (length (sets s),
           s\<lparr>sets := sets s @ [[]],
             p_listeners := AList.update eventName (length (sets s)) (p_listeners s)\<rparr>))"

text \<open>
  The methods call each other and the listeners, which call the methods again, and nothing
  bounds the depth. So every method takes the object it is called on as a record \<open>this\<close>
  of the methods it may call; \<open>this_at P n\<close> further down is the emitter whose methods can
  be entered \<open>n\<close> times in a row (one unit of fuel per call of a method and per step of
  the loop of \<open>emit\<close>), and \<open>None\<close> says that the fuel ran out. A call that runs out
  of every amount of fuel is a recursion without end, which the runtime stops with a stack
  overflow. The model ends there: \<open>None\<close> goes through \<open>catch\<close> and \<open>finally\<close> to the
  caller, while the runtime throws a \<open>RangeError\<close> at some depth, which a \<open>catch\<close> on
  the way out (that of \<open>emit\<close>) would take like any other error. What the emitter does
  after a stack overflow inside a listener is therefore not modelled; the statements below
  that speak of \<open>None\<close> are about calls made directly by the caller.
\<close>

record methods =
  m_emit :: "ename \<Rightarrow> val list \<Rightarrow> state \<Rightarrow> bool outcome option"
  m_emit_loop :: "ename \<Rightarrow> val list \<Rightarrow> nat \<Rightarrow> nat \<Rightarrow> state \<Rightarrow> unit outcome option"
  m_addEventListener ::
    "ename \<Rightarrow> listener \<Rightarrow> EventListenerOptions option \<Rightarrow> state \<Rightarrow> unit outcome option"
  m_removeEventListener :: "ename \<Rightarrow> listener \<Rightarrow> state \<Rightarrow> bool outcome option"
  m_removeAllListeners :: "ename option \<Rightarrow> state \<Rightarrow> bool outcome option"

text \<open>A call whose result is dropped (a statement), and one command of a listener body.\<close>

definition discard :: "'a outcome option \<Rightarrow> unit outcome option" where
  "discard r =
     (case r of
        None \<Rightarrow> None
      | Some (Exc err s) \<Rightarrow> Some (Exc err s)
      | Some (Ret b s) \<Rightarrow> Some (Ret () s))"

definition exec_cmd :: "methods \<Rightarrow> cmd \<Rightarrow> state \<Rightarrow> unit outcome option" where
  "exec_cmd this c s =
     (case c of
        Register eventName l opts \<Rightarrow> m_addEventListener this eventName l opts s
      | Unregister eventName l \<Rightarrow> discard (m_removeEventListener this eventName l s)
      | UnregisterAll eventName \<Rightarrow> discard (m_removeAllListeners this eventName s)
      | Emit eventName args \<Rightarrow> discard (m_emit this eventName args s)
      | SetMax k \<Rightarrow> Some (set_maxListeners k s)
      | Throw v \<Rightarrow> Some (Exc v s))"

text \<open>A listener body runs its commands in order and stops at the first exception.\<close>

fun exec :: "methods \<Rightarrow> cmd list \<Rightarrow> state \<Rightarrow> unit outcome option" where
  "exec this [] s = Some (Ret () s)"
| "exec this (c # cs) s =
     (case exec_cmd this c s of
        None \<Rightarrow> None
      | Some (Exc err s') \<Rightarrow> Some (Exc err s')
      | Some (Ret u s') \<Rightarrow> exec this cs s')"

definition arg0 :: "val list \<Rightarrow> val" where
  "arg0 args = (case args of [] \<Rightarrow> VUndefined | x # xs \<Rightarrow> x)"

text \<open>\<open>emit\<close>, lines 209 to 239. The set is looked up once; its size is read before the
  loop.\<close>

definition emit_body ::
  "methods \<Rightarrow> ename \<Rightarrow> val list \<Rightarrow> state \<Rightarrow> bool outcome option" where
  "emit_body this eventName args s =
     (case map_of (p_listeners s) eventName of
        None \<Rightarrow>
          (if eventName = Str ''error'' then
             (if instanceof_Error (arg0 args) then Some (Exc (arg0 args) s)
              else Some (Exc (VError UnhandledError) s))
           else Some (Ret False s))
      | Some a \<Rightarrow>
          (let listenerSetSize = set_size (sets s ! a) in
           case m_emit_loop this eventName args a 0 s of
             None \<Rightarrow> None
           | Some (Exc err s') \<Rightarrow> Some (Exc err s')
           | Some (Ret u s') \<Rightarrow> Some (Ret (listenerSetSize > 0) s')))"

text \<open>
  The \<open>try\<close> and \<open>catch\<close> of the loop of \<open>emit\<close>: the listener is called with the event
  name before the arguments, and what it throws is emitted as an \<open>error\<close> event.
\<close>

definition call_listener ::
  "prog \<Rightarrow> methods \<Rightarrow> ename \<Rightarrow> val list \<Rightarrow> listener \<Rightarrow> state \<Rightarrow> unit outcome option" where
  "call_listener P this eventName args l s =
     (let args1 = VKey eventName # args in
      case exec this (P l args1) (s\<lparr>calls := calls s @ [(l, args1)]\<rparr>) of
        None \<Rightarrow> None
      | Some (Ret u s1) \<Rightarrow> Some (Ret () s1)
      | Some (Exc err s1) \<Rightarrow> discard (m_emit this (Str ''error'') [err] s1))"

text \<open>
  The loop of \<open>emit\<close> at index \<open>i\<close> of the set at address \<open>a\<close>. \<open>caught\<close> is the outcome
  after \<open>try\<close> and \<open>catch\<close>; the \<open>finally\<close> block runs after both, an exception of its own
  replaces a pending one, and a pending one goes on after it.
\<close>

definition emit_loop_body ::
  "prog \<Rightarrow> methods \<Rightarrow> ename \<Rightarrow> val list \<Rightarrow> nat \<Rightarrow> nat \<Rightarrow> state \<Rightarrow> unit outcome option" where
  "emit_loop_body P this eventName args a i s =
     (if length (sets s ! a) \<le> i then Some (Ret () s)
      else
        (case sets s ! a ! i of
           None \<Rightarrow> m_emit_loop this eventName args a (Suc i) s
         | Some l \<Rightarrow>
             (case call_listener P this eventName args l s of
                None \<Rightarrow> None
              | Some caught \<Rightarrow>
                  (let s3 = (case caught of Ret u t \<Rightarrow> t | Exc err t \<Rightarrow> t) in
                   case (if once_option s3 eventName l
                         then m_removeEventListener this eventName l s3
                         else Some (Ret False s3)) of
                     None \<Rightarrow> None
                   | Some (Exc err s4) \<Rightarrow> Some (Exc err s4)
                   | Some (Ret b s4) \<Rightarrow>
                       (case caught of
                          Exc err t \<Rightarrow> Some (Exc err s4)
                        | Ret u t \<Rightarrow> m_emit_loop this eventName args a (Suc i) s4)))))"

text \<open>Lines 123 to 141: the listener goes into the set at address \<open>a\<close> and its options
  into the meta map.\<close>

definition store_listener ::
  "nat \<Rightarrow> ename \<Rightarrow> listener \<Rightarrow> EventListenerOptions option \<Rightarrow> state \<Rightarrow> state" where
  "store_listener a eventName l opts s =
     s\<lparr>sets := (sets s)[a := set_add (sets s ! a) l],
       p_listenerMeta := meta_add eventName l opts (p_listenerMeta s)\<rparr>"

text \<open>\<open>addEventListener\<close>, lines 103 to 145.\<close>

definition addEventListener_body ::
  "methods \<Rightarrow> ename \<Rightarrow> listener \<Rightarrow> EventListenerOptions option \<Rightarrow> state
    \<Rightarrow> unit outcome option" where
  "addEventListener_body this eventName l opts s =
     (case get_or_create_set eventName s of
        (a, s1) \<Rightarrow>
          (if set_has (sets s1 ! a) l then Some (Ret () s1)
           else if int (set_size (sets s1 ! a)) \<ge> p_maxListeners s1
           then Some (Exc (VError TooManyListeners) s1)
           else discard (m_emit this (Str ''newListener'')
                           [VKey eventName, VFn l, options_val opts]
                           (store_listener a eventName l opts s1))))"

text \<open>\<open>removeEventListener\<close>, lines 155 to 171: the notification goes out first, then the
  listener is deleted from the set that was looked up before it.\<close>

definition removeEventListener_body ::
  "methods \<Rightarrow> ename \<Rightarrow> listener \<Rightarrow> state \<Rightarrow> bool outcome option" where
  "removeEventListener_body this eventName l s =
     (case map_of (p_listeners s) eventName of
        None \<Rightarrow> Some (Ret False s)
      | Some a \<Rightarrow>
          (if \<not> set_has (sets s ! a) l then Some (Ret False s)
           else
             (case m_emit this (Str ''removeListener'') [VKey eventName, VFn l] s of
                None \<Rightarrow> None
              | Some (Exc err s1) \<Rightarrow> Some (Exc err s1)
              | Some (Ret b s1) \<Rightarrow>
                  Some (Ret True
                    (s1\<lparr>sets := (sets s1)[a := set_delete (sets s1 ! a) l],
                        p_listenerMeta := meta_delete eventName l (p_listenerMeta s1)\<rparr>)))))"

text \<open>The two loops of \<open>removeAllListeners\<close>, each over an array made before the loop.\<close>

fun removeAll_events :: "methods \<Rightarrow> ename list \<Rightarrow> state \<Rightarrow> unit outcome option" where
  "removeAll_events this [] s = Some (Ret () s)"
| "removeAll_events this (key # ks) s =
     (case m_removeAllListeners this (Some key) s of
        None \<Rightarrow> None
      | Some (Exc err s') \<Rightarrow> Some (Exc err s')
      | Some (Ret b s') \<Rightarrow> removeAll_events this ks s')"

fun emit_removed :: "methods \<Rightarrow> ename \<Rightarrow> listener list \<Rightarrow> state \<Rightarrow> unit outcome option" where
  "emit_removed this eventName [] s = Some (Ret () s)"
| "emit_removed this eventName (l # ls) s =
     (case m_emit this (Str ''removeListener'') [VKey eventName, VFn l] s of
        None \<Rightarrow> None
      | Some (Exc err s') \<Rightarrow> Some (Exc err s')
      | Some (Ret b s') \<Rightarrow> emit_removed this eventName ls s')"

text \<open>\<open>removeAllListeners\<close>, lines 178 to 200.\<close>

definition removeAllListeners_body ::
  "methods \<Rightarrow> ename option \<Rightarrow> state \<Rightarrow> bool outcome option" where
  "removeAllListeners_body this eventName s =
     (if falsy eventName then
        (let reversedEvents = rev (map fst (p_listeners s)) in
         case removeAll_events this reversedEvents s of
           None \<Rightarrow> None
         | Some (Exc err s') \<Rightarrow> Some (Exc err s')
         | Some (Ret u s') \<Rightarrow> Some (Ret (length reversedEvents > 0) s'))
      else
        (case map_of (p_listeners s) (the eventName) of
           None \<Rightarrow> Some (Ret False s)
         | Some a \<Rightarrow>
             (let s1 = s\<lparr>p_listeners := AList.delete (the eventName) (p_listeners s),
                         p_listenerMeta := AList.delete (the eventName) (p_listenerMeta s)\<rparr>;
                  reversedListeners = rev (set_values (sets s ! a)) in
              case emit_removed this (the eventName) reversedListeners s1 of
                None \<Rightarrow> None
              | Some (Exc err s') \<Rightarrow> Some (Exc err s')
              | Some (Ret u s') \<Rightarrow> Some (Ret True s'))))"

text \<open>The emitter with \<open>n\<close> units of fuel: each method is its body on the emitter with one
  unit less.\<close>

primrec this_at :: "prog \<Rightarrow> nat \<Rightarrow> methods" where
  "this_at P 0 =
     \<lparr>m_emit = (\<lambda>eventName args s. None),
      m_emit_loop = (\<lambda>eventName args a i s. None),
      m_addEventListener = (\<lambda>eventName l opts s. None),
      m_removeEventListener = (\<lambda>eventName l s. None),
      m_removeAllListeners = (\<lambda>eventName s. None)\<rparr>"
| "this_at P (Suc n) =
     (let this = this_at P n in
      \<lparr>m_emit = emit_body this,
       m_emit_loop = emit_loop_body P this,
       m_addEventListener = addEventListener_body this,
       m_removeEventListener = removeEventListener_body this,
       m_removeAllListeners = removeAllListeners_body this\<rparr>)"

definition emit :: "prog \<Rightarrow> nat \<Rightarrow> ename \<Rightarrow> val list \<Rightarrow> state \<Rightarrow> bool outcome option" where
  "emit P n = m_emit (this_at P n)"

definition emit_loop ::
  "prog \<Rightarrow> nat \<Rightarrow> ename \<Rightarrow> val list \<Rightarrow> nat \<Rightarrow> nat \<Rightarrow> state \<Rightarrow> unit outcome option" where
  "emit_loop P n = m_emit_loop (this_at P n)"

definition addEventListener ::
  "prog \<Rightarrow> nat \<Rightarrow> ename \<Rightarrow> listener \<Rightarrow> EventListenerOptions option \<Rightarrow> state
    \<Rightarrow> unit outcome option" where
  "addEventListener P n = m_addEventListener (this_at P n)"

definition removeEventListener ::
  "prog \<Rightarrow> nat \<Rightarrow> ename \<Rightarrow> listener \<Rightarrow> state \<Rightarrow> bool outcome option" where
  "removeEventListener P n = m_removeEventListener (this_at P n)"

definition removeAllListeners ::
  "prog \<Rightarrow> nat \<Rightarrow> ename option \<Rightarrow> state \<Rightarrow> bool outcome option" where
  "removeAllListeners P n = m_removeAllListeners (this_at P n)"

text \<open>\<open>eventNames\<close> lists the keys of \<open>_listeners\<close>; \<open>listeners\<close> copies the set of an
  event.\<close>

definition eventNames :: "state \<Rightarrow> ename list" where
  "eventNames s = map fst (p_listeners s)"

definition listeners :: "state \<Rightarrow> ename \<Rightarrow> listener list" where
  "listeners s eventName =
     (case map_of (p_listeners s) eventName of
        None \<Rightarrow> []
      | Some a \<Rightarrow> set_values (sets s ! a))"

text \<open>\<open>listenerCount\<close> calls itself for every event name when it is given none, so it takes
  fuel as well; \<open>count_events\<close> is its loop.\<close>

fun listenerCount :: "nat \<Rightarrow> ename option \<Rightarrow> listener option \<Rightarrow> state \<Rightarrow> nat option"
  and count_events :: "nat \<Rightarrow> ename list \<Rightarrow> nat \<Rightarrow> state \<Rightarrow> nat option"
where
  "listenerCount 0 eventName l s = None"
| "listenerCount (Suc n) eventName l s =
     (if falsy eventName then count_events n (eventNames s) 0 s
      else
        (case map_of (p_listeners s) (the eventName) of
           None \<Rightarrow> Some 0
         | Some a \<Rightarrow>
             (case l of
                Some f \<Rightarrow> Some (if set_has (sets s ! a) f then 1 else 0)
              | None \<Rightarrow> Some (set_size (sets s ! a)))))"
| "count_events 0 ks count s = None"
| "count_events (Suc n) [] count s = Some count"
| "count_events (Suc n) (k # ks) count s =
     (case listenerCount n (Some k) None s of
        None \<Rightarrow> None
      | Some c \<Rightarrow> count_events n ks (count + c) s)"


section \<open>Notions used by the statements\<close>

text \<open>A caller's sequence of calls on the emitter with \<open>n\<close> units of fuel.\<close>

definition run :: "prog \<Rightarrow> nat \<Rightarrow> cmd list \<Rightarrow> state \<Rightarrow> unit outcome option" where
  "run P n cs s = exec (this_at P n) cs s"

text \<open>Listeners that do nothing: every body is empty.\<close>

definition quiet :: prog where
  "quiet l args = []"

text \<open>The number of listeners over all events, each event counted by its own set.\<close>

definition total_count :: "state \<Rightarrow> nat" where
  "total_count s = sum_list (map (\<lambda>k. length (listeners s k)) (eventNames s))"

text \<open>The state in which \<open>addEventListener\<close> sends its \<open>newListener\<close> notification: the set is
  there and the listener is stored.\<close>

definition stored :: "ename \<Rightarrow> listener \<Rightarrow> EventListenerOptions option \<Rightarrow> state \<Rightarrow> state" where
  "stored eventName l opts s =
     (case get_or_create_set eventName s of (a, s1) \<Rightarrow> store_listener a eventName l opts s1)"

text \<open>The two maps in lockstep: the same event names, and for each event the same listeners
  in its set and in its meta map.\<close>

definition lockstep :: "state \<Rightarrow> bool" where
  "lockstep s =
     (set (map fst (p_listeners s)) = set (map fst (p_listenerMeta s)) \<and>
      list_all
        (\<lambda>(eventName, a).
           case map_of (p_listenerMeta s) eventName of
             None \<Rightarrow> False
           | Some metaMap \<Rightarrow> set (map fst metaMap) = set (set_values (sets s ! a)))
        (p_listeners s))"

section \<open>States and listeners of the examples\<close>

text \<open>A fresh emitter after \<open>addEventListener(e, f)\<close> and \<open>removeEventListener(e, f)\<close>: the
  set of \<open>e\<close> is still in the map, with its one entry emptied.\<close>

definition emptied :: "ename \<Rightarrow> state" where
  "emptied e =
     \<lparr>p_maxListeners = 10, p_listeners = [(e, 0)], p_listenerMeta = [(e, [])],
      sets = [[None]], calls = []\<rparr>"

text \<open>A fresh emitter after \<open>maxListeners = 0\<close> and a failed \<open>addEventListener(e, f)\<close>.\<close>

definition failed_register :: "ename \<Rightarrow> state" where
  "failed_register e =
     \<lparr>p_maxListeners = 0, p_listeners = [(e, 0)], p_listenerMeta = [],
      sets = [[]], calls = []\<rparr>"

text \<open>A fresh emitter after \<open>addEventListener('''', 1)\<close>: an event named by the empty string.\<close>

definition empty_named :: state where
  "empty_named =
     \<lparr>p_maxListeners = 10, p_listeners = [(Str '''', 0)],
      p_listenerMeta = [(Str '''', [(1, Meta None)])], sets = [[Some 1]], calls = []\<rparr>"




section \<open>Listeners that leave the emitter alone\<close>

text \<open>
  The statements about a whole \<open>emit\<close> are made for listeners that do not call back into
  the emitter. \<open>handler_calls s ev xs\<close> are the calls that \<open>emit(ev, ...xs)\<close> makes when the
  listeners of \<open>ev\<close> do nothing, \<open>handlers_size\<close> is the length of the set it walks, and
  \<open>observers_ok P s a ev\<close> says that the listeners of \<open>ev\<close> do nothing on any arguments,
  are not \<open>once\<close> listeners, and live in another set than the one at address \<open>a\<close>.
\<close>

definition handler_calls :: "state \<Rightarrow> ename \<Rightarrow> val list \<Rightarrow> (listener \<times> val list) list" where
  "handler_calls s ev xs = map (\<lambda>g. (g, VKey ev # xs)) (listeners s ev)"

definition handlers_size :: "state \<Rightarrow> ename \<Rightarrow> nat" where
  "handlers_size s ev =
     (case map_of (p_listeners s) ev of None \<Rightarrow> 0 | Some b \<Rightarrow> length (sets s ! b))"

definition observers_ok :: "prog \<Rightarrow> state \<Rightarrow> nat \<Rightarrow> ename \<Rightarrow> bool" where
  "observers_ok P s a ev =
     ((\<forall>b. map_of (p_listeners s) ev = Some b \<longrightarrow> b \<noteq> a) \<and>
      (\<forall>g \<in> set (listeners s ev). (\<forall>xs. P g xs = []) \<and> \<not> once_option s ev g))"


text \<open>
  What one turn of the loop of \<open>emit\<close> does for listener \<open>l\<close> in such a state: the call of
  \<open>l\<close>, the calls of the \<open>error\<close> listeners when \<open>l\<close> throws, and for a \<open>once\<close> listener the
  calls of the \<open>removeListener\<close> listeners, after which \<open>l\<close> leaves the set and the meta map.
\<close>

definition visit_calls ::
  "prog \<Rightarrow> ename \<Rightarrow> val list \<Rightarrow> state \<Rightarrow> listener \<Rightarrow> (listener \<times> val list) list" where
  "visit_calls P e args s l =
     (l, VKey e # args) #
     (case P l (VKey e # args) of
        [Throw v] \<Rightarrow> handler_calls s (Str ''error'') [v]
      | _ \<Rightarrow> []) @
     (if once_option s e l then handler_calls s (Str ''removeListener'') [VKey e, VFn l]
      else [])"

definition visit :: "prog \<Rightarrow> ename \<Rightarrow> val list \<Rightarrow> nat \<Rightarrow> state \<Rightarrow> listener \<Rightarrow> state" where
  "visit P e args a s l =
     (if once_option s e l
      then s\<lparr>calls := calls s @ visit_calls P e args s l,
             sets := (sets s)[a := set_delete (sets s ! a) l],
             p_listenerMeta := meta_delete e l (p_listenerMeta s)\<rparr>
      else s\<lparr>calls := calls s @ visit_calls P e args s l\<rparr>)"

section \<open>More states and listeners of the examples\<close>









text \<open>
  Listener 1 registers listener 2 for \<open>newListener\<close> when it hears that a listener was
  added to event \<open>a\<close>. A fresh emitter after \<open>maxListeners = 1\<close> and
  \<open>addEventListener(''newListener'', 1)\<close>, and the same after a failed
  \<open>addEventListener(''a'', 5)\<close>.
\<close>

definition registers_on_a :: prog where
  "registers_on_a l args =
     (if l = 1 \<and> take 2 args = [VKey (Str ''newListener''), VKey (Str ''a'')]
      then [Register (Str ''newListener'') 2 None] else [])"

definition watching :: state where
  "watching =
     \<lparr>p_maxListeners = 1, p_listeners = [(Str ''newListener'', 0)],
      p_listenerMeta = [(Str ''newListener'', [(1, Meta None)])], sets = [[Some 1]],
      calls = [(1, [VKey (Str ''newListener''), VKey (Str ''newListener''), VFn 1,
                    VUndefined])]\<rparr>"

definition watching_failed :: state where
  "watching_failed =
     \<lparr>p_maxListeners = 1, p_listeners = [(Str ''newListener'', 0), (Str ''a'', 1)],
      p_listenerMeta = [(Str ''newListener'', [(1, Meta None)]), (Str ''a'', [(5, Meta None)])],
      sets = [[Some 1], [Some 5]],
      calls = [(1, [VKey (Str ''newListener''), VKey (Str ''newListener''), VFn 1,
                    VUndefined]),
               (1, [VKey (Str ''newListener''), VKey (Str ''a''), VFn 5, VUndefined])]\<rparr>"

section \<open>The methods at a given fuel\<close>

declare this_at.simps [simp del]

lemma m_emit_this_at [simp]: "m_emit (this_at P n) = emit P n"
  by (simp add: emit_def)

lemma m_emit_loop_this_at [simp]: "m_emit_loop (this_at P n) = emit_loop P n"
  by (simp add: emit_loop_def)

lemma m_addEventListener_this_at [simp]:
  "m_addEventListener (this_at P n) = addEventListener P n"
  by (simp add: addEventListener_def)

lemma m_removeEventListener_this_at [simp]:
  "m_removeEventListener (this_at P n) = removeEventListener P n"
  by (simp add: removeEventListener_def)

lemma m_removeAllListeners_this_at [simp]:
  "m_removeAllListeners (this_at P n) = removeAllListeners P n"
  by (simp add: removeAllListeners_def)

lemma emit_0 [simp]: "emit P 0 e args s = None"
  by (simp add: emit_def this_at.simps)

lemma emit_Suc: "emit P (Suc n) e args s = emit_body (this_at P n) e args s"
  by (simp add: emit_def this_at.simps Let_def)

lemma emit_loop_0 [simp]: "emit_loop P 0 e args a i s = None"
  by (simp add: emit_loop_def this_at.simps)

lemma emit_loop_Suc:
  "emit_loop P (Suc n) e args a i s = emit_loop_body P (this_at P n) e args a i s"
  by (simp add: emit_loop_def this_at.simps Let_def)

lemma addEventListener_0 [simp]: "addEventListener P 0 e l opts s = None"
  by (simp add: addEventListener_def this_at.simps)

lemma addEventListener_Suc:
  "addEventListener P (Suc n) e l opts s = addEventListener_body (this_at P n) e l opts s"
  by (simp add: addEventListener_def this_at.simps Let_def)

lemma removeEventListener_0 [simp]: "removeEventListener P 0 e l s = None"
  by (simp add: removeEventListener_def this_at.simps)

lemma removeEventListener_Suc:
  "removeEventListener P (Suc n) e l s = removeEventListener_body (this_at P n) e l s"
  by (simp add: removeEventListener_def this_at.simps Let_def)

lemma removeAllListeners_0 [simp]: "removeAllListeners P 0 eo s = None"
  by (simp add: removeAllListeners_def this_at.simps)

lemma removeAllListeners_Suc:
  "removeAllListeners P (Suc n) eo s = removeAllListeners_body (this_at P n) eo s"
  by (simp add: removeAllListeners_def this_at.simps Let_def)

text \<open>The equations that evaluate a call on a concrete state.\<close>

lemmas run_simps =
  emit_Suc emit_loop_Suc addEventListener_Suc removeEventListener_Suc removeAllListeners_Suc
  emit_body_def emit_loop_body_def addEventListener_body_def removeEventListener_body_def
  removeAllListeners_body_def call_listener_def exec_cmd_def discard_def get_or_create_set_def
  store_listener_def set_has_def set_size_def set_values_def set_add_def set_delete_def
  meta_add_def meta_delete_def once_option_def options_val_def arg0_def falsy_def
  set_maxListeners_def new_EventEmitter_def DEFAULT_MAX_LISTENERS_def Let_def
  eval_nat_numeral listeners_def eventNames_def run_def

section \<open>The empty string as an event name\<close>

lemma removeAllListeners_empty_name:
  "removeAllListeners P n (Some (Str '''')) s = removeAllListeners P n None s"
  by (cases n) (simp_all add: removeAllListeners_Suc removeAllListeners_body_def falsy_def)

lemma listenerCount_empty_name:
  "listenerCount n (Some (Str '''')) l s = listenerCount n None l s"
  by (cases n) (simp_all add: falsy_def)

lemma listenerCount_named:
  "k \<noteq> Str '''' \<Longrightarrow> listenerCount (Suc n) (Some k) None s = Some (length (listeners s k))"
  by (simp add: falsy_def listeners_def set_size_def split: option.splits)

lemma count_events_total:
  "Str '''' \<notin> set ks \<Longrightarrow> length ks < n \<Longrightarrow>
   count_events n ks c s = Some (c + sum_list (map (\<lambda>k. length (listeners s k)) ks))"
proof (induction ks arbitrary: n c)
  case Nil
  then show ?case by (cases n) simp_all
next
  case (Cons k ks)
  then obtain m where n: "n = Suc (Suc m)"
    by (cases n; cases "n - 1") auto
  from Cons.prems have k: "k \<noteq> Str ''''" and ks: "Str '''' \<notin> set ks" by auto
  have "count_events (Suc m) ks (c + length (listeners s k)) s =
      Some (c + length (listeners s k) + sum_list (map (\<lambda>k. length (listeners s k)) ks))"
    using Cons.prems n by (intro Cons.IH[OF ks]) simp
  then show ?case
    using k by (simp add: n listenerCount_named del: listenerCount.simps(2))
qed

lemma listenerCount_total:
  assumes "Str '''' \<notin> set (eventNames s)" and "length (eventNames s) + 1 < n"
  shows "listenerCount n None l s = Some (total_count s)"
proof -
  obtain m where n: "n = Suc m" and m: "length (eventNames s) < m"
    using assms(2) by (cases n) auto
  show ?thesis
    using count_events_total[OF assms(1) m, of 0 s] by (simp add: n falsy_def total_count_def)
qed

text \<open>With an event named by the empty string in the map, counting that event counts all
  events, which counts that event again: no amount of fuel is enough.\<close>

lemma listenerCount_diverges_aux:
  "Str '''' \<in> set (eventNames s) \<Longrightarrow>
     (\<forall>l. listenerCount n (Some (Str '''')) l s = None) \<and>
     (\<forall>ks c. Str '''' \<in> set ks \<longrightarrow> count_events n ks c s = None)"
proof (induction n)
  case 0
  then show ?case by simp
next
  case (Suc n)
  then have P: "\<And>l. listenerCount n (Some (Str '''')) l s = None"
    and Q: "\<And>ks c. Str '''' \<in> set ks \<Longrightarrow> count_events n ks c s = None" by auto
  have "count_events (Suc n) ks c s = None" if "Str '''' \<in> set ks" for ks c
  proof (cases ks)
    case Nil
    with that show ?thesis by simp
  next
    case (Cons k ks')
    show ?thesis
    proof (cases "k = Str ''''")
      case True
      then show ?thesis using P by (simp add: Cons)
    next
      case False
      with that Cons have "Str '''' \<in> set ks'" by auto
      then show ?thesis using Q by (simp add: Cons split: option.splits)
    qed
  qed
  moreover have "listenerCount (Suc n) (Some (Str '''')) l s = None" for l
    using Q[OF Suc.prems] by (simp add: falsy_def)
  ultimately show ?case by blast
qed

lemma listenerCount_diverges:
  "Str '''' \<in> set (eventNames s) \<Longrightarrow> listenerCount n (Some (Str '''')) l s = None"
  using listenerCount_diverges_aux by blast

text \<open>The same for \<open>removeAllListeners\<close> when the empty string is the event registered
  last, which the loop takes first.\<close>

lemma removeAllListeners_diverges:
  assumes "eventNames s = ks @ [Str '''']"
  shows "removeAllListeners P n None s = None"
proof (induction n)
  case 0
  show ?case by simp
next
  case (Suc n)
  have "removeAllListeners P n (Some (Str '''')) s = None"
    using Suc by (simp add: removeAllListeners_empty_name)
  then show ?case
    using assms
    by (simp add: removeAllListeners_Suc removeAllListeners_body_def falsy_def eventNames_def)
qed


section \<open>A whole \<open>emit\<close> among listeners that leave the emitter alone\<close>

lemma once_option_calls [simp]: "once_option (s\<lparr>calls := c\<rparr>) e l = once_option s e l"
  by (simp add: once_option_def)

lemma listeners_calls [simp]: "listeners (s\<lparr>calls := c\<rparr>) e = listeners s e"
  by (simp add: listeners_def split: option.splits)

lemma handler_calls_calls [simp]:
  "handler_calls (s\<lparr>calls := c\<rparr>) ev xs = handler_calls s ev xs"
  by (simp add: handler_calls_def)

lemma observers_ok_calls [simp]: "observers_ok P (s\<lparr>calls := c\<rparr>) a ev = observers_ok P s a ev"
  by (simp add: observers_ok_def)

lemma handlers_size_calls [simp]: "handlers_size (s\<lparr>calls := c\<rparr>) ev = handlers_size s ev"
  by (simp add: handlers_size_def split: option.splits)

lemma set_values_Nil [simp]: "set_values [] = []"
  by (simp add: set_values_def)

lemma set_values_Cons:
  "set_values (x # es) = (case x of None \<Rightarrow> [] | Some l \<Rightarrow> [l]) @ set_values es"
  by (simp add: set_values_def)

lemma set_set_values: "set (set_values es) = {l. Some l \<in> set es}"
  by (induction es) (auto simp: set_values_Cons split: option.splits)


lemma length_set_delete [simp]: "length (set_delete es l) = length es"
  by (simp add: set_delete_def)

lemma set_values_drop_subset: "set (set_values (drop i es)) \<subseteq> set (set_values es)"
  by (auto simp: set_set_values dest: in_set_dropD)








lemma once_option_sets [simp]: "once_option (s\<lparr>sets := x\<rparr>) ev g = once_option s ev g"
  by (simp add: once_option_def)

lemma p_listeners_visit [simp]: "p_listeners (visit P e args a s l) = p_listeners s"
  by (simp add: visit_def)

lemma length_sets_visit [simp]: "length (sets (visit P e args a s l)) = length (sets s)"
  by (simp add: visit_def)

















section \<open>Empty listener sets that stay in the map\<close>

text \<open>
  Claim C2. \<open>emit("error", ...)\<close> throws only when the map has no entry for \<open>error\<close>. After
  the one \<open>error\<close> listener is registered and unregistered again, no listener is registered
  for \<open>error\<close>, but the emptied set is still in the map, and emitting \<open>error\<close> returns
  \<open>false\<close> instead of throwing, for a plain value and for an \<open>Error\<close> alike.
\<close>

theorem emit_error_after_unregister_returns_false:
  "run quiet 3 [Register (Str ''error'') 1 None, Unregister (Str ''error'') 1] new_EventEmitter
     = Some (Ret () (emptied (Str ''error'')))
   \<and> listeners (emptied (Str ''error'')) (Str ''error'') = []
   \<and> emit quiet 3 (Str ''error'') [VKey (Str ''plain value'')] (emptied (Str ''error''))
     = Some (Ret False (emptied (Str ''error'')))
   \<and> emit quiet 3 (Str ''error'') [VError (Error ''x'')] (emptied (Str ''error''))
     = Some (Ret False (emptied (Str ''error'')))"
  by (simp add: run_simps quiet_def emptied_def)

text \<open>
  Claim C3. \<open>eventNames()\<close> lists the keys of the map. After the only listener of event
  \<open>a\<close> is removed with \<open>removeEventListener\<close>, the event has no listener and
  \<open>eventNames()\<close> still lists it.
\<close>

theorem eventNames_after_unregister_keeps_event:
  "run quiet 3 [Register (Str ''a'') 1 None, Unregister (Str ''a'') 1] new_EventEmitter
     = Some (Ret () (emptied (Str ''a'')))
   \<and> listeners (emptied (Str ''a'')) (Str ''a'') = []
   \<and> eventNames (emptied (Str ''a'')) = [Str ''a'']"
  by (simp add: run_simps quiet_def emptied_def)

text \<open>
  Claim C4. With \<open>maxListeners = 0\<close>, \<open>addEventListener("a", f)\<close> on a fresh emitter throws
  \<open>TooManyListeners\<close> after it has put a new set for \<open>a\<close> into \<open>_listeners\<close>; \<open>_listenerMeta\<close>
  gets no entry for \<open>a\<close>, so the two maps are out of step.
\<close>

theorem failed_register_breaks_lockstep:
  "lockstep new_EventEmitter
   \<and> run quiet 3 [SetMax 0, Register (Str ''a'') 1 None] new_EventEmitter
     = Some (Exc (VError TooManyListeners) (failed_register (Str ''a'')))
   \<and> map fst (p_listeners (failed_register (Str ''a''))) = [Str ''a'']
   \<and> map fst (p_listenerMeta (failed_register (Str ''a''))) = []
   \<and> \<not> lockstep (failed_register (Str ''a''))"
  by (simp add: run_simps quiet_def failed_register_def lockstep_def)

text \<open>
  Claim C8. \<open>removeAllListeners()\<close> returns whether the map had a key. After the only
  listener of event \<open>a\<close> is removed with \<open>removeEventListener\<close>, no event has a listener
  and \<open>removeAllListeners()\<close> returns \<open>true\<close>.
\<close>

theorem removeAllListeners_without_listeners_returns_true:
  "run quiet 3 [Register (Str ''a'') 1 None, Unregister (Str ''a'') 1] new_EventEmitter
     = Some (Ret () (emptied (Str ''a'')))
   \<and> total_count (emptied (Str ''a'')) = 0
   \<and> listenerCount 3 None None (emptied (Str ''a'')) = Some 0
   \<and> removeAllListeners quiet 3 None (emptied (Str ''a''))
     = Some (Ret True ((emptied (Str ''a''))\<lparr>p_listeners := [], p_listenerMeta := []\<rparr>))"
  by (simp add: run_simps quiet_def emptied_def total_count_def)

section \<open>The cap of \<open>addEventListener\<close>\<close>

lemma listeners_absent: "map_of (p_listeners s) e = None \<Longrightarrow> listeners s e = []"
  by (simp add: listeners_def)

lemma addEventListener_cases:
  "addEventListener P (Suc n) e l opts s =
     (if l \<in> set (listeners s e) then Some (Ret () s)
      else if p_maxListeners s \<le> int (length (listeners s e))
      then Some (Exc (VError TooManyListeners) (snd (get_or_create_set e s)))
      else discard (emit P n (Str ''newListener'') [VKey e, VFn l, options_val opts]
                      (stored e l opts s)))"
proof (cases "map_of (p_listeners s) e")
  case None
  then show ?thesis
    by (simp add: addEventListener_Suc addEventListener_body_def get_or_create_set_def
        stored_def listeners_def set_has_def set_size_def set_values_def)
next
  case (Some a)
  have "set (set_values es) = {l. Some l \<in> set es}" for es :: entries
    by (induction es) (auto simp: set_values_def split: option.splits)
  then show ?thesis
    using Some
    by (simp add: addEventListener_Suc addEventListener_body_def get_or_create_set_def
        stored_def listeners_def set_has_def set_size_def)
qed




text \<open>
  Claim C9, as stated, fails: a \<open>TooManyListeners\<close> error also comes out of
  \<open>addEventListener\<close> when the cap check has passed and the listener is stored. With
  \<open>maxListeners = 1\<close> and a \<open>newListener\<close> listener that registers a second \<open>newListener\<close>
  listener when it hears of event \<open>a\<close>, \<open>addEventListener("a", 5)\<close> stores listener 5, the
  notification runs into the cap of \<open>newListener\<close>, and the call ends with
  \<open>TooManyListeners\<close>: event \<open>a\<close> had no entry before, and afterwards its listener count
  is 1.
\<close>

theorem failed_register_keeps_listener:
  "run registers_on_a 4 [SetMax 1, Register (Str ''newListener'') 1 None] new_EventEmitter
     = Some (Ret () watching)
   \<and> map_of (p_listeners watching) (Str ''a'') = None
   \<and> addEventListener registers_on_a 6 (Str ''a'') 5 None watching
     = Some (Exc (VError TooManyListeners) watching_failed)
   \<and> Str ''a'' \<in> set (eventNames watching_failed)
   \<and> listenerCount 2 (Some (Str ''a'')) None watching_failed = Some 1"
  by (simp add: run_simps registers_on_a_def watching_def watching_failed_def)

text \<open>
  Claim C9, amended. When \<open>addEventListener\<close> is refused at its own cap check, which for an
  event without an entry is when \<open>maxListeners\<close> is 0, the failed call leaves an empty set
  behind. For an event name other than the empty string: afterwards \<open>eventNames()\<close> lists
  the event after the events it listed before, \<open>listeners\<close> of the event is empty and
  \<open>listenerCount\<close> of the event is 0.
\<close>

theorem failed_register_leaves_empty_set:
  assumes "map_of (p_listeners s) e = None" and "p_maxListeners s \<le> 0" and "e \<noteq> Str ''''"
  shows "\<exists>s'. addEventListener P (Suc n) e l opts s = Some (Exc (VError TooManyListeners) s')
           \<and> eventNames s' = eventNames s @ [e]
           \<and> listeners s' e = []
           \<and> listenerCount (Suc k) (Some e) None s' = Some 0"
proof -
  have absent: "e \<notin> fst ` set (p_listeners s)"
    using assms(1) by (simp add: map_of_eq_None_iff)
  have upd: "AList.update e v al = al @ [(e, v)]" if "e \<notin> fst ` set al"
    for v :: nat and al
    using that by (induction al) auto
  let ?s' = "snd (get_or_create_set e s)"
  have s': "?s' = s\<lparr>sets := sets s @ [[]], p_listeners := p_listeners s @ [(e, length (sets s))]\<rparr>"
    using assms(1) upd[OF absent] by (simp add: get_or_create_set_def)
  have lookup: "map_of (p_listeners ?s') e = Some (length (sets s))"
    using assms(1) by (simp add: s' map_add_def)
  have ls: "listeners ?s' e = []"
    by (simp add: listeners_def lookup) (simp add: s' set_values_def)
  have "addEventListener P (Suc n) e l opts s = Some (Exc (VError TooManyListeners) ?s')"
    using assms(2) by (simp add: addEventListener_cases listeners_absent[OF assms(1)])
  moreover have "eventNames ?s' = eventNames s @ [e]"
    by (simp add: s' eventNames_def)
  moreover have "listenerCount (Suc k) (Some e) None ?s' = Some 0"
    using assms(3) ls by (simp add: listenerCount_named del: listenerCount.simps)
  ultimately show ?thesis using ls by blast
qed

theorem failed_register_leaves_empty_set_witness:
  "\<exists>s'. addEventListener quiet 1 (Str ''a'') 1 None (new_EventEmitter\<lparr>p_maxListeners := 0\<rparr>)
           = Some (Exc (VError TooManyListeners) s')
      \<and> eventNames s' = [Str ''a'']
      \<and> listeners s' (Str ''a'') = []
      \<and> listenerCount 1 (Some (Str ''a'')) None s' = Some 0"
proof -
  have h: "map_of (p_listeners (new_EventEmitter\<lparr>p_maxListeners := 0\<rparr>)) (Str ''a'') = None"
    "p_maxListeners (new_EventEmitter\<lparr>p_maxListeners := 0\<rparr>) \<le> 0" "Str ''a'' \<noteq> Str ''''"
    by (simp_all add: new_EventEmitter_def)
  show ?thesis
    using failed_register_leaves_empty_set[OF h, of quiet 0 1 None 0]
    by (simp add: eventNames_def new_EventEmitter_def del: listenerCount.simps)
qed

section \<open>The empty string and the optional event name\<close>

text \<open>
  The empty string is taken for a missing event name: \<open>removeAllListeners("")\<close> is
  \<open>removeAllListeners()\<close> and \<open>listenerCount("")\<close> is \<open>listenerCount()\<close>, and while the map
  has no event named by the empty string, the latter is the number of listeners of all
  events.
\<close>

lemma empty_name_is_no_name:
  "removeAllListeners P n (Some (Str '''')) s = removeAllListeners P n None s
   \<and> listenerCount n (Some (Str '''')) l s = listenerCount n None l s
   \<and> (Str '''' \<notin> set (eventNames s) \<and> length (eventNames s) + 1 < n \<longrightarrow>
        listenerCount n (Some (Str '''')) l s = Some (total_count s))"
  using listenerCount_total[of s n l]
  by (simp add: removeAllListeners_empty_name listenerCount_empty_name
      del: listenerCount.simps)

text \<open>
  Claim C10. The claim holds while no event is named by the empty string. Once
  \<open>addEventListener("", f)\<close> has put such an event into the map, \<open>listenerCount("")\<close>
  returns no total and \<open>removeAllListeners("")\<close> removes nothing: each takes the branch for
  a missing event name, walks the keys and calls itself for the key \<open>""\<close>, which takes the
  same branch again, without end.
\<close>

theorem empty_name_in_map_never_returns:
  "run quiet 3 [Register (Str '''') 1 None] new_EventEmitter = Some (Ret () empty_named)
   \<and> total_count empty_named = 1
   \<and> (\<forall>n. listenerCount n (Some (Str '''')) None empty_named = None)
   \<and> (\<forall>n. removeAllListeners quiet n (Some (Str '''')) empty_named = None)"
proof -
  have names: "eventNames empty_named = [] @ [Str '''']"
    by (simp add: eventNames_def empty_named_def)
  have "\<forall>n. listenerCount n (Some (Str '''')) None empty_named = None"
    using names by (simp add: listenerCount_diverges del: listenerCount.simps)
  moreover have "\<forall>n. removeAllListeners quiet n (Some (Str '''')) empty_named = None"
    using removeAllListeners_diverges[OF names] by (simp add: removeAllListeners_empty_name)
  moreover have "run quiet 3 [Register (Str '''') 1 None] new_EventEmitter
      = Some (Ret () empty_named)"
    by (simp add: run_simps quiet_def empty_named_def)
  moreover have "total_count empty_named = 1"
    by (simp add: total_count_def eventNames_def listeners_def empty_named_def set_values_def)
  ultimately show ?thesis by blast
qed


section \<open>Which listeners an \<open>emit\<close> calls\<close>














end
